theory Spec2Isabelle
  imports Complex_Main
begin

section \<open>Equity forward IPV check: carry versus put-call parity\<close>

text \<open>
  A shallow embedding of \<^verbatim>\<open>equity_forward_ipv.py\<close>. Python floats are modelled as
  the real numbers: \<^verbatim>\<open>math.exp\<close> is \<^term>\<open>exp\<close>, \<^verbatim>\<open>math.log\<close> is \<^term>\<open>ln\<close> on
  its domain, and overflow, underflow, NaN and the rounding error of binary floating
  point are outside the model. Every \<^verbatim>\<open>raise\<close> of the source, and every operation of
  it that raises in real arithmetic (division by zero, logarithm of a non-positive
  number, arithmetic on \<^verbatim>\<open>None\<close>), is a branch returning an \<open>error\<close>.
\<close>

subsection \<open>Inputs\<close>

record EquityForwardIPVInputs =
  spot :: real
  r :: real
  net_carry :: real
  T :: real
  strike :: real
  call :: "real option"
  put :: "real option"

subsection \<open>Errors and the raising primitives\<close>

datatype error = ValueError string | TypeError | ZeroDivisionError

text \<open>Sequencing: an error of the first computation ends the whole one, as a raise does.\<close>

definition try_then :: "error + 'a \<Rightarrow> ('a \<Rightarrow> error + 'b) \<Rightarrow> error + 'b" where
  "try_then m f = (case m of Inl e \<Rightarrow> Inl e | Inr v \<Rightarrow> f v)"

text \<open>Python's \<^verbatim>\<open>a / b\<close> on floats.\<close>

definition truediv :: "real \<Rightarrow> real \<Rightarrow> error + real" where
  "truediv a b = (if b = 0 then Inl ZeroDivisionError else Inr (a / b))"

text \<open>\<^verbatim>\<open>math.log(v)\<close>.\<close>

definition math_log :: "real \<Rightarrow> error + real" where
  "math_log v = (if v \<le> 0 then Inl (ValueError ''math domain error'') else Inr (ln v))"

text \<open>
  \<^verbatim>\<open>round(v)\<close> to the nearest integer, ties to the even neighbour, and
  \<^verbatim>\<open>round(v, ndigits)\<close>, which rounds the decimal expansion the same way.
\<close>

definition round_half_even :: "real \<Rightarrow> int" where
  "round_half_even v =
     (let f = \<lfloor>v\<rfloor>; d = v - of_int f
      in if d < 1/2 then f
         else if 1/2 < d then f + 1
         else if even f then f else f + 1)"

definition py_round :: "real \<Rightarrow> int \<Rightarrow> real" where
  "py_round v ndigits =
     (if 0 \<le> ndigits
      then of_int (round_half_even (v * 10 ^ nat ndigits)) / 10 ^ nat ndigits
      else of_int (round_half_even (v / 10 ^ nat (- ndigits))) * 10 ^ nat (- ndigits))"

subsection \<open>Validation\<close>

definition validate_inputs :: "EquityForwardIPVInputs \<Rightarrow> error + unit" where
  "validate_inputs x =
     (if spot x \<le> 0 then Inl (ValueError ''spot must be > 0'')
      else if strike x \<le> 0 then Inl (ValueError ''strike must be > 0'')
      else if T x \<le> 0 then Inl (ValueError ''T must be > 0'')
      else if call x \<noteq> None \<and> the (call x) < 0 then Inl (ValueError ''call must be >= 0'')
      else if put x \<noteq> None \<and> the (put x) < 0 then Inl (ValueError ''put must be >= 0'')
      else if (call x = None) \<noteq> (put x = None)
        then Inl (ValueError ''provide both call and put (same K,T), or neither'')
      else Inr ())"

subsection \<open>Core formulas (continuous compounding)\<close>

text \<open>
  Here \<^verbatim>\<open>math.exp\<close> is the real exponential, which is positive everywhere and defined
  everywhere. The source's \<^verbatim>\<open>math.exp\<close> is not: on doubles it returns 0.0 for arguments
  below about -745.13 and raises \<^verbatim>\<open>OverflowError\<close> above about 709.78. The definitions
  agree with the source where the arguments stay inside these limits.
\<close>

definition forward_carry :: "real \<Rightarrow> real \<Rightarrow> real \<Rightarrow> real \<Rightarrow> real" where
  "forward_carry spot' r' net_carry' T' = spot' * exp ((r' - net_carry') * T')"

definition forward_from_put_call_parity :: "real \<Rightarrow> real \<Rightarrow> real \<Rightarrow> real \<Rightarrow> real \<Rightarrow> real" where
  "forward_from_put_call_parity K C P r' T' = K + exp (r' * T') * (C - P)"

definition implied_net_carry :: "real \<Rightarrow> real \<Rightarrow> real \<Rightarrow> real \<Rightarrow> error + real option" where
  "implied_net_carry spot' F_target r' T' =
     (if spot' \<le> 0 \<or> T' \<le> 0 \<or> F_target \<le> 0 then Inr None
      else try_then (truediv F_target spot') (\<lambda>ratio.
           try_then (math_log ratio) (\<lambda>l.
           try_then (truediv l T') (\<lambda>v.
           Inr (Some (r' - v))))))"

subsection \<open>The report\<close>

record Tolerances =
  tol_abs :: real
  tol_bps :: real
  tol_eff :: "real option"
  tol_q_gap_bps :: real

record Report =
  status :: string
  pass_rule :: string
  baseline_forward :: real
  market_implied_forward :: "real option"
  abs_spread :: "real option"
  rel_spread_bps_vs_fbase :: "real option"
  rel_spread_bps_vs_spot :: "real option"
  net_carry_input :: real
  net_carry_input_pct :: real
  net_carry_implied :: "real option"
  net_carry_implied_pct :: "real option"
  net_carry_gap_bps :: "real option"
  pass_eff :: "bool option"
  tolerances :: Tolerances
  root_cause_hints :: "string list"
  assumptions :: "(string \<times> string) list"

text \<open>The two bytes of the UTF-8 encoding of the Greek capital delta.\<close>

definition Delta :: string where
  "Delta = [CHR 0xCE, CHR 0x94]"

definition pass_rule_text :: string where
  "pass_rule_text =
     ''|'' @ Delta @ ''F| <= tol_eff (tol_eff = max(tol_abs, tol_bps * F_carry / 10000))''"

subsection \<open>The IPV engine\<close>

text \<open>The hint texts, in the order the source appends them.\<close>

definition hint_timestamp :: string where
  "hint_timestamp = ''Timestamp alignment (spot vs options).''"

definition hint_conventions :: string where
  "hint_conventions = ''Conventions (T, day count, compounding, curve).''"

definition hint_lower :: string where
  "hint_lower =
     ''Market-implied forward LOWER: check higher dividends / higher borrow-repo / stale spot.''"

definition hint_higher :: string where
  "hint_higher =
     ''Market-implied forward HIGHER: check lower dividends / lower borrow-repo / stale options.''"

definition hint_carry_mismatch :: string where
  "hint_carry_mismatch = ''Dividends / repo-borrow (net carry mismatch).''"

definition hint_carry_unavailable :: string where
  "hint_carry_unavailable = ''Implied net carry not available (invalid inputs or F<=0).''"

definition hint_settlement :: string where
  "hint_settlement = ''Settlement & corporate actions (ex-div, specials, splits).''"

definition hint_bid_ask :: string where
  "hint_bid_ask = ''Bid/ask consistency (mid vs executable, stale quotes).''"

text \<open>The hint list built at lines 129 to 146 of the source, from the local variables there.\<close>

definition hints_for :: "string \<Rightarrow> real \<Rightarrow> real option \<Rightarrow> real option \<Rightarrow> real \<Rightarrow> string list" where
  "hints_for status' abs_spread' q_impl q_gap_bps tol_q_gap_bps' =
     (if status' = ''FAIL'' then
        [hint_timestamp, hint_conventions]
        @ (if abs_spread' < 0 then [hint_lower] else [hint_higher])
        @ (if q_impl \<noteq> None
           then (if tol_q_gap_bps' \<le> \<bar>the q_gap_bps\<bar> then [hint_carry_mismatch] else [])
           else [hint_carry_unavailable])
        @ [hint_settlement, hint_bid_ask]
      else [])"

definition run_ipv_check ::
  "EquityForwardIPVInputs \<Rightarrow> real \<Rightarrow> real \<Rightarrow> real \<Rightarrow> int \<Rightarrow> error + Report" where
  "run_ipv_check x tol_abs' tol_bps' tol_q_gap_bps' rounding =
     try_then (validate_inputs x) (\<lambda>_.
      let f_baseline = forward_carry (spot x) (r x) (net_carry x) (T x);
          report = \<lparr> status = ''N/A (no options provided)'',
                     pass_rule = pass_rule_text,
                     baseline_forward = py_round f_baseline rounding,
                     market_implied_forward = None,
                     abs_spread = None,
                     rel_spread_bps_vs_fbase = None,
                     rel_spread_bps_vs_spot = None,
                     net_carry_input = net_carry x,
                     net_carry_input_pct = py_round (net_carry x * 100) 3,
                     net_carry_implied = None,
                     net_carry_implied_pct = None,
                     net_carry_gap_bps = None,
                     pass_eff = None,
                     tolerances = \<lparr> tol_abs = tol_abs', tol_bps = tol_bps',
                                    tol_eff = None, tol_q_gap_bps = tol_q_gap_bps' \<rparr>,
                     root_cause_hints = [],
                     assumptions = [(''compounding'', ''continuous''),
                                    (''net_carry'', ''dividend_yield - repo/borrow'')] \<rparr>
      in if call x = None then Inr report
         else if put x = None then Inl TypeError
         else
         let C = the (call x); P = the (put x);
             f_mkt = forward_from_put_call_parity (strike x) C P (r x) (T x);
             abs_spread' = f_mkt - f_baseline
         in try_then (truediv abs_spread' f_baseline) (\<lambda>d_fbase.
            try_then (truediv abs_spread' (spot x)) (\<lambda>d_spot.
            let rel_bps_fbase = d_fbase * 10000;
                rel_bps_spot = d_spot * 10000;
                tol_eff' = max tol_abs' (\<bar>tol_bps'\<bar> * f_baseline / 10000);
                pass_eff' = (\<bar>abs_spread'\<bar> \<le> tol_eff');
                status' = (if pass_eff' then ''PASS'' else ''FAIL'')
            in try_then (implied_net_carry (spot x) f_mkt (r x) (T x)) (\<lambda>q_impl.
               let q_gap_bps = (if q_impl \<noteq> None
                                then Some ((the q_impl - net_carry x) * 10000) else None);
                   hints = hints_for status' abs_spread' q_impl q_gap_bps tol_q_gap_bps'
               in Inr (report
                    \<lparr> status := status',
                      pass_rule := pass_rule report,
                      baseline_forward := py_round f_baseline rounding,
                      market_implied_forward := Some (py_round f_mkt rounding),
                      abs_spread := Some (py_round abs_spread' rounding),
                      rel_spread_bps_vs_fbase := Some (py_round rel_bps_fbase 2),
                      rel_spread_bps_vs_spot := Some (py_round rel_bps_spot 2),
                      net_carry_implied := q_impl,
                      net_carry_implied_pct :=
                        (if q_impl \<noteq> None then Some (py_round (the q_impl * 100) 3) else None),
                      net_carry_gap_bps :=
                        (if q_gap_bps \<noteq> None then Some (py_round (the q_gap_bps) 1) else None),
                      pass_eff := Some pass_eff',
                      tolerances := (tolerances report) \<lparr> tol_eff := Some tol_eff' \<rparr>,
                      root_cause_hints := hints \<rparr>)))))"

definition run_ipv_check_default :: "EquityForwardIPVInputs \<Rightarrow> error + Report" where
  "run_ipv_check_default x = run_ipv_check x (20 / 100) 5 50 6"

subsection \<open>Output formatting\<close>

text \<open>
  Fixed-point formatting \<^verbatim>\<open>f"{v:.{nd}f}"\<close>: the sign of \<open>v\<close>, then its magnitude rounded
  to \<open>nd\<close> decimals (ties to even), the fraction padded with zeros.
\<close>

definition digit_char :: "nat \<Rightarrow> char" where
  "digit_char n = char_of (48 + n)"

fun nat_digits :: "nat \<Rightarrow> string" where
  "nat_digits n = (if n < 10 then [digit_char n] else nat_digits (n div 10) @ [digit_char (n mod 10)])"

definition format_fixed :: "real \<Rightarrow> nat \<Rightarrow> string" where
  "format_fixed v nd =
     (let m = nat (round_half_even (\<bar>v\<bar> * 10 ^ nd));
          frac = nat_digits (m mod 10 ^ nd)
      in (if v < 0 then ''-'' else [])
         @ nat_digits (m div 10 ^ nd)
         @ (if nd = 0 then [] else ''.'' @ replicate (nd - length frac) (CHR ''0'') @ frac))"

definition fmt_num :: "real option \<Rightarrow> nat \<Rightarrow> string" where
  "fmt_num v nd = (case v of None \<Rightarrow> ''N/A'' | Some w \<Rightarrow> format_fixed w nd)"

definition sep_line :: string where
  "sep_line = replicate 40 (CHR ''='')"

text \<open>\<^verbatim>\<open>"\n".join(lines)\<close>.\<close>

fun join_lines :: "string list \<Rightarrow> string" where
  "join_lines [] = []"
| "join_lines [l] = l"
| "join_lines (l # ls) = l @ [CHR 0x0A] @ join_lines ls"

text \<open>
  The lines appended before the hint block (lines 183 to 218 of the source). The
  parameter \<open>float_str\<close> is Python's \<^verbatim>\<open>str\<close> of a float, the shortest decimal string
  that reads back as the same binary number, which has no counterpart on the reals.
\<close>

definition report_body :: "(real \<Rightarrow> string) \<Rightarrow> Report \<Rightarrow> string list" where
  "report_body float_str rep =
     (let t = tolerances rep;
          tol_eff' = tol_eff t;
          tol_abs' = Some (tol_abs t);
          tol_bps' = Some (tol_bps t);
          rule = pass_rule rep;
          tol_str =
            (if tol_abs' \<noteq> None \<and> tol_bps' \<noteq> None \<and> tol_eff' \<noteq> None
             then ''tol_abs: '' @ float_str (the tol_abs') @ '', tol_bps: ''
                  @ float_str (the tol_bps') @ '', tol_eff: '' @ format_fixed (the tol_eff') 3
             else if tol_eff' \<noteq> None then ''tol_eff: '' @ format_fixed (the tol_eff') 3
             else ''N/A'');
          q_gap_bps = net_carry_gap_bps rep
      in [sep_line, '' EQUITY FORWARD IPV REPORT'', sep_line,
          ''STATUS            : '' @ status rep]
         @ (if rule \<noteq> [] then [''Rule              : '' @ rule] else [])
         @ [[],
            ''F_baseline (carry): '' @ fmt_num (Some (baseline_forward rep)) 3,
            ''F_implied (parity): '' @ fmt_num (market_implied_forward rep) 3,
            [],
            Delta @ ''F (abs)          : '' @ fmt_num (abs_spread rep) 3
              @ ''   ('' @ tol_str @ '')'',
            Delta @ ''F (bps vs F)     : '' @ fmt_num (rel_spread_bps_vs_fbase rep) 2,
            Delta @ ''F (bps vs S)     : '' @ fmt_num (rel_spread_bps_vs_spot rep) 2,
            [],
            ''Net carry (input) : '' @ float_str (net_carry_input_pct rep) @ ''%'',
            ''Net carry (impl.) : ''
              @ (if net_carry_implied_pct rep = None then ''N/A''
                 else format_fixed (the (net_carry_implied_pct rep)) 3 @ ''%'')]
         @ (if q_gap_bps \<noteq> None
            then [Delta @ ''q (bps)          : ''
                    @ (if 0 \<le> the q_gap_bps then ''+'' else [])
                    @ format_fixed (the q_gap_bps) 1]
            else []))"

text \<open>The hint block (lines 220 to 225) and the closing separator.\<close>

definition format_ipv_report_lines :: "(real \<Rightarrow> string) \<Rightarrow> Report \<Rightarrow> int \<Rightarrow> string list" where
  "format_ipv_report_lines float_str rep top_hints =
     (let hints = root_cause_hints rep
      in report_body float_str rep
         @ (if hints \<noteq> []
            then [[], ''Next checks        :'']
                 @ map (\<lambda>h. ''- '' @ h) (take (nat (max 0 top_hints)) hints)
            else [])
         @ [sep_line])"

definition format_ipv_report :: "(real \<Rightarrow> string) \<Rightarrow> Report \<Rightarrow> int \<Rightarrow> string" where
  "format_ipv_report float_str rep top_hints =
     join_lines (format_ipv_report_lines float_str rep top_hints)"

text \<open>The input of the example run at the end of the source file.\<close>

definition example_inputs :: EquityForwardIPVInputs where
  "example_inputs =
     \<lparr> spot = 100, r = 3 / 100, net_carry = 1 / 100, T = 1 / 2, strike = 100,
       call = Some (520 / 100), put = Some (480 / 100) \<rparr>"

text \<open>Two numbers agree to three decimals.\<close>

definition approx3 :: "real \<Rightarrow> real \<Rightarrow> bool" where
  "approx3 a b \<longleftrightarrow> \<bar>a - b\<bar> \<le> 5 / 10000"

text \<open>An input whose parity forward, 5/4, is not a whole number.\<close>

definition rounding_inputs :: EquityForwardIPVInputs where
  "rounding_inputs =
     \<lparr> spot = 1, r = 0, net_carry = 0, T = 1, strike = 1,
       call = Some (1 / 4), put = Some 0 \<rparr>"

text \<open>A FAIL report with six hints, as \<open>run_ipv_check\<close> builds it when the implied carry is absent.\<close>

definition six_hints :: "string list" where
  "six_hints = [hint_timestamp, hint_conventions, hint_lower, hint_carry_unavailable,
                hint_settlement, hint_bid_ask]"

definition example_fail_report :: Report where
  "example_fail_report =
     \<lparr> status = ''FAIL'',
       pass_rule = pass_rule_text,
       baseline_forward = 100,
       market_implied_forward = Some (- 1),
       abs_spread = Some (- 101),
       rel_spread_bps_vs_fbase = Some (- 10100),
       rel_spread_bps_vs_spot = Some (- 10100),
       net_carry_input = 0,
       net_carry_input_pct = 0,
       net_carry_implied = None,
       net_carry_implied_pct = None,
       net_carry_gap_bps = None,
       pass_eff = Some False,
       tolerances = \<lparr> tol_abs = 1 / 5, tol_bps = 5, tol_eff = Some (1 / 5),
                      tol_q_gap_bps = 50 \<rparr>,
       root_cause_hints = six_hints,
       assumptions = [(''compounding'', ''continuous''),
                      (''net_carry'', ''dividend_yield - repo/borrow'')] \<rparr>"


section \<open>Auxiliary facts\<close>

lemma validate_inputs_ok_iff:
  "validate_inputs x = Inr () \<longleftrightarrow>
     0 < spot x \<and> 0 < strike x \<and> 0 < T x
     \<and> (call x = None \<and> put x = None
        \<or> (\<exists>c p. call x = Some c \<and> put x = Some p \<and> 0 \<le> c \<and> 0 \<le> p))"
  by (cases "call x"; cases "put x") (auto simp: validate_inputs_def)

lemma forward_carry_pos: "0 < s \<Longrightarrow> 0 < forward_carry s rt q tm"
  by (simp add: forward_carry_def)

lemma implied_net_carry_eq:
  "0 < s \<Longrightarrow> 0 < tm \<Longrightarrow>
   implied_net_carry s F rt tm = Inr (if F \<le> 0 then None else Some (rt - ln (F / s) / tm))"
  by (auto simp: implied_net_carry_def try_then_def truediv_def math_log_def divide_le_0_iff)

lemma run_no_options:
  assumes "validate_inputs x = Inr ()" "call x = None"
  shows "run_ipv_check x ta tb tq rd =
     Inr \<lparr> status = ''N/A (no options provided)'',
           pass_rule = pass_rule_text,
           baseline_forward = py_round (forward_carry (spot x) (r x) (net_carry x) (T x)) rd,
           market_implied_forward = None,
           abs_spread = None,
           rel_spread_bps_vs_fbase = None,
           rel_spread_bps_vs_spot = None,
           net_carry_input = net_carry x,
           net_carry_input_pct = py_round (net_carry x * 100) 3,
           net_carry_implied = None,
           net_carry_implied_pct = None,
           net_carry_gap_bps = None,
           pass_eff = None,
           tolerances = \<lparr> tol_abs = ta, tol_bps = tb, tol_eff = None, tol_q_gap_bps = tq \<rparr>,
           root_cause_hints = [],
           assumptions = [(''compounding'', ''continuous''),
                          (''net_carry'', ''dividend_yield - repo/borrow'')] \<rparr>"
  using assms by (simp add: run_ipv_check_def try_then_def Let_def)

lemma run_with_options:
  assumes v: "validate_inputs x = Inr ()" and c: "call x = Some C" and p: "put x = Some P"
  shows "run_ipv_check x ta tb tq rd =
     (let f_baseline = forward_carry (spot x) (r x) (net_carry x) (T x);
          f_mkt = forward_from_put_call_parity (strike x) C P (r x) (T x);
          sp = f_mkt - f_baseline;
          te = max ta (\<bar>tb\<bar> * f_baseline / 10000);
          st = (if \<bar>sp\<bar> \<le> te then ''PASS'' else ''FAIL'');
          q_impl = (if f_mkt \<le> 0 then None else Some (r x - ln (f_mkt / spot x) / T x));
          q_gap = (if f_mkt \<le> 0 then None
                   else Some ((r x - ln (f_mkt / spot x) / T x - net_carry x) * 10000))
      in Inr \<lparr> status = st,
           pass_rule = pass_rule_text,
           baseline_forward = py_round f_baseline rd,
           market_implied_forward = Some (py_round f_mkt rd),
           abs_spread = Some (py_round sp rd),
           rel_spread_bps_vs_fbase = Some (py_round (sp / f_baseline * 10000) 2),
           rel_spread_bps_vs_spot = Some (py_round (sp / spot x * 10000) 2),
           net_carry_input = net_carry x,
           net_carry_input_pct = py_round (net_carry x * 100) 3,
           net_carry_implied = q_impl,
           net_carry_implied_pct = map_option (\<lambda>q. py_round (q * 100) 3) q_impl,
           net_carry_gap_bps = map_option (\<lambda>g. py_round g 1) q_gap,
           pass_eff = Some (\<bar>sp\<bar> \<le> te),
           tolerances = \<lparr> tol_abs = ta, tol_bps = tb, tol_eff = Some te, tol_q_gap_bps = tq \<rparr>,
           root_cause_hints = hints_for st sp q_impl q_gap tq,
           assumptions = [(''compounding'', ''continuous''),
                          (''net_carry'', ''dividend_yield - repo/borrow'')] \<rparr>)"
proof -
  from v have pos: "0 < spot x" "0 < T x" by (simp_all add: validate_inputs_ok_iff)
  then have fb: "forward_carry (spot x) (r x) (net_carry x) (T x) \<noteq> 0"
    using forward_carry_pos [of "spot x"] by (simp add: less_imp_neq [THEN not_sym])
  show ?thesis
    using v c p pos fb
    by (simp add: run_ipv_check_def try_then_def truediv_def Let_def
        implied_net_carry_eq [OF pos])
qed

lemma round_half_even_error: "\<bar>of_int (round_half_even v) - v\<bar> \<le> 1 / 2"
  unfolding round_half_even_def Let_def by (auto simp: abs_le_iff)

lemma py_round_error: "\<bar>py_round v n - v\<bar> \<le> 10 powi (- n) / 2"
proof (cases "0 \<le> n")
  case True
  define k where "k = (10::real) ^ nat n"
  define R where "R = real_of_int (round_half_even (v * k))"
  have k: "0 < k" by (simp add: k_def)
  have "\<bar>R - v * k\<bar> \<le> 1 / 2" unfolding R_def by (rule round_half_even_error)
  then have "\<bar>R - v * k\<bar> / k \<le> (1 / 2) / k"
    using k by (intro divide_right_mono) simp_all
  moreover have "R / k - v = (R - v * k) / k"
    using k by (simp add: field_simps)
  then have "\<bar>R / k - v\<bar> = \<bar>R - v * k\<bar> / k"
    using k by simp
  moreover have "10 powi (- n) = 1 / k"
    using True by (simp add: k_def power_int_def power_one_over)
  ultimately show ?thesis using True by (simp add: py_round_def k_def R_def)
next
  case False
  define k where "k = (10::real) ^ nat (- n)"
  define R where "R = real_of_int (round_half_even (v / k))"
  have k: "0 < k" by (simp add: k_def)
  have "\<bar>R - v / k\<bar> \<le> 1 / 2" unfolding R_def by (rule round_half_even_error)
  then have "\<bar>R - v / k\<bar> * k \<le> (1 / 2) * k"
    using k by (intro mult_right_mono) simp_all
  moreover have "R * k - v = (R - v / k) * k"
    using k by (simp add: field_simps)
  then have "\<bar>R * k - v\<bar> = \<bar>R - v / k\<bar> * k"
    using k by (simp add: abs_mult)
  moreover have "10 powi (- n) = k"
    using False by (simp add: k_def power_int_def)
  ultimately show ?thesis using False by (simp add: py_round_def k_def R_def)
qed

lemmas hint_defs =
  hint_timestamp_def hint_conventions_def hint_lower_def hint_higher_def
  hint_carry_mismatch_def hint_carry_unavailable_def hint_settlement_def hint_bid_ask_def

lemma hints_for_nonempty_iff: "hints_for st sp qi qg tq \<noteq> [] \<longleftrightarrow> st = ''FAIL''"
  by (simp add: hints_for_def)

lemma hints_for_fail:
  "hints_for ''FAIL'' sp qi qg tq =
     [hint_timestamp, hint_conventions, if sp < 0 then hint_lower else hint_higher]
     @ (case qi of None \<Rightarrow> [hint_carry_unavailable]
        | Some q \<Rightarrow> if tq \<le> \<bar>the qg\<bar> then [hint_carry_mismatch] else [])
     @ [hint_settlement, hint_bid_ask]"
  by (cases qi) (simp_all add: hints_for_def)

lemma rounding_inputs_valid: "validate_inputs rounding_inputs = Inr ()"
  by (simp add: validate_inputs_def rounding_inputs_def)

lemma exp_cubic_bounds:
  fixes v :: real
  assumes "0 \<le> v" and "v \<le> 1"
  shows "1 + v + v\<^sup>2 / 2 \<le> exp v" and "exp v \<le> 1 + v + v\<^sup>2 / 2 + v ^ 3 / 2"
proof -
  show "1 + v + v\<^sup>2 / 2 \<le> exp v" using assms(1) by (rule exp_lower_Taylor_quadratic)
  obtain t where t: "\<bar>t\<bar> \<le> \<bar>v\<bar>"
    and e: "exp v = (\<Sum>m<3. v ^ m / fact m) + exp t / fact 3 * v ^ 3"
    using Maclaurin_exp_le [of v 3] by blast
  have s: "(\<Sum>m<3. v ^ m / fact m) = 1 + v + v\<^sup>2 / 2"
    by (simp add: numeral_3_eq_3 power2_eq_square fact_numeral)
  have "t \<le> 1" using t assms by linarith
  then have "exp t \<le> exp 1" by simp
  also have "\<dots> \<le> 3" by (rule exp_le)
  finally have "exp t \<le> 3" .
  moreover have "0 \<le> v ^ 3" using assms(1) by simp
  ultimately have "exp t * v ^ 3 \<le> 3 * v ^ 3" by (rule mult_right_mono)
  then have "exp t / fact 3 * v ^ 3 \<le> v ^ 3 / 2"
    by (simp add: fact_numeral)
  with e s show "exp v \<le> 1 + v + v\<^sup>2 / 2 + v ^ 3 / 2" by simp
qed

lemma exp_hundredth:
  "10100500 / 10000000 \<le> exp (1 / 100 :: real)" "exp (1 / 100 :: real) \<le> 10100505 / 10000000"
  using exp_cubic_bounds [of "1 / 100"] by (simp_all add: power2_eq_square power3_eq_cube)

lemma exp_three_two_hundredths:
  "10151125 / 10000000 \<le> exp (3 / 200 :: real)" "exp (3 / 200 :: real) \<le> 10151142 / 10000000"
  using exp_cubic_bounds [of "3 / 200"] by (simp_all add: power2_eq_square power3_eq_cube)

lemma py_round_error_6: "\<bar>py_round v 6 - v\<bar> \<le> 1 / 2000000"
proof -
  have "(10::real) powi (- 6) = 1 / 1000000"
    by (simp add: power_int_def power_one_over)
  with py_round_error [of v 6] show ?thesis by simp
qed

lemma example_inputs_valid: "validate_inputs example_inputs = Inr ()"
  by (simp add: validate_inputs_def example_inputs_def)

lemma example_forwards:
  "forward_carry (spot example_inputs) (r example_inputs) (net_carry example_inputs)
     (T example_inputs) = 100 * exp (1 / 100)"
  "forward_from_put_call_parity (strike example_inputs) (520 / 100) (480 / 100)
     (r example_inputs) (T example_inputs) = 100 + exp (3 / 200) * (4 / 10)"
  by (simp_all add: forward_carry_def forward_from_put_call_parity_def example_inputs_def)

lemma example_tol_eff: "max (20 / 100) (\<bar>5\<bar> * (100 * exp (1 / 100 :: real)) / 10000) = 20 / 100"
  using exp_hundredth by simp

lemma sep_line_neq_next: "sep_line \<noteq> ''Next checks        :''"
proof
  assume "sep_line = ''Next checks        :''"
  then have "length sep_line = length ''Next checks        :''" by simp
  then show False by (simp add: sep_line_def)
qed

lemma sep_line_nonempty: "sep_line \<noteq> []"
  by (simp add: sep_line_def)

lemma next_checks_not_in_body: "''Next checks        :'' \<notin> set (report_body fs rep)"
  using sep_line_neq_next by (auto simp: report_body_def Let_def Delta_def)

lemma report_body_last_nonblank: "last (report_body fs rep) \<noteq> []"
  by (simp add: report_body_def Let_def Delta_def)

section \<open>Verified properties\<close>

text \<open>
  Claim C4. \<open>validate_inputs\<close> raises a \<^verbatim>\<open>ValueError\<close> (the InvalidInput error of the
  specification) exactly when the spot, the strike or the year fraction is not positive,
  a supplied call or put price is negative, or exactly one of call and put is supplied.
  On every other input, in particular with call and put both absent, it returns normally.
  Being a function of its argument alone, it has no other effect.
\<close>

theorem validate_inputs_rejects_exactly:
  "if spot x \<le> 0 \<or> strike x \<le> 0 \<or> T x \<le> 0
      \<or> (\<exists>c. call x = Some c \<and> c < 0) \<or> (\<exists>p. put x = Some p \<and> p < 0)
      \<or> (call x = None) \<noteq> (put x = None)
   then \<exists>reason. validate_inputs x = Inl (ValueError reason)
   else validate_inputs x = Inr ()"
  by (cases "call x"; cases "put x") (auto simp: validate_inputs_def)

theorem validate_inputs_rejects_exactly_witness:
  "validate_inputs \<lparr> spot = 100, r = 3 / 100, net_carry = 1 / 100, T = 1 / 2, strike = 100,
                      call = None, put = None \<rparr> = Inr ()
   \<and> (\<exists>reason. validate_inputs \<lparr> spot = 100, r = 3 / 100, net_carry = 1 / 100, T = 1 / 2,
                                   strike = 100, call = Some 1, put = None \<rparr>
                  = Inl (ValueError reason))"
  using validate_inputs_rejects_exactly
    [of "\<lparr> spot = 100, r = 3 / 100, net_carry = 1 / 100, T = 1 / 2, strike = 100,
           call = None, put = None \<rparr>"]
    validate_inputs_rejects_exactly
    [of "\<lparr> spot = 100, r = 3 / 100, net_carry = 1 / 100, T = 1 / 2, strike = 100,
           call = Some 1, put = None \<rparr>"]
  by simp



text \<open>
  Claim C10. Every report of a valid input carries the configured tolerances, the input net
  carry, the pass-rule text and the assumptions. The effective tolerance and the pass flag
  are absent in the not-applicable report and present exactly in PASS and FAIL reports.
\<close>

theorem not_applicable_tolerances:
  assumes "validate_inputs x = Inr ()"
  shows "\<exists>rep. run_ipv_check x ta tb tq rd = Inr rep
           \<and> tol_abs (tolerances rep) = ta
           \<and> tol_bps (tolerances rep) = tb
           \<and> tol_q_gap_bps (tolerances rep) = tq
           \<and> net_carry_input rep = net_carry x
           \<and> pass_rule rep = pass_rule_text
           \<and> assumptions rep = [(''compounding'', ''continuous''),
                                 (''net_carry'', ''dividend_yield - repo/borrow'')]
           \<and> (if call x = None
               then status rep = ''N/A (no options provided)''
                    \<and> tol_eff (tolerances rep) = None \<and> pass_eff rep = None
               else (status rep = ''PASS'' \<or> status rep = ''FAIL'')
                    \<and> tol_eff (tolerances rep) \<noteq> None \<and> pass_eff rep \<noteq> None)"
proof (cases "call x")
  case None
  with assms show ?thesis by (simp add: run_no_options)
next
  case (Some C)
  with assms obtain P where "put x = Some P" by (auto simp: validate_inputs_ok_iff)
  with assms Some show ?thesis by (simp add: run_with_options Let_def)
qed

theorem not_applicable_tolerances_witness:
  "validate_inputs \<lparr> spot = 100, r = 0, net_carry = 0, T = 1, strike = 100,
                      call = None, put = None \<rparr> = Inr ()
   \<and> (\<exists>rep. run_ipv_check \<lparr> spot = 100, r = 0, net_carry = 0, T = 1, strike = 100,
                             call = None, put = None \<rparr> (1 / 5) 5 50 6 = Inr rep
           \<and> tol_abs (tolerances rep) = 1 / 5
           \<and> tol_bps (tolerances rep) = 5
           \<and> tol_q_gap_bps (tolerances rep) = 50
           \<and> tol_eff (tolerances rep) = None
           \<and> pass_eff rep = None)"
proof -
  let ?x = "\<lparr> spot = 100, r = 0, net_carry = 0, T = 1, strike = 100,
              call = None, put = None \<rparr> :: EquityForwardIPVInputs"
  have v: "validate_inputs ?x = Inr ()" by (simp add: validate_inputs_def)
  from not_applicable_tolerances [OF v, of "1 / 5" 5 50 6] v show ?thesis by auto
qed



text \<open>
  Claim C7. Round trip: for a positive spot and a positive year fraction, the implied net
  carry of the carry forward is present and is the net carry the forward was built from.
\<close>

theorem implied_net_carry_inverts_forward_carry:
  assumes "0 < s" and "0 < tm"
  shows "implied_net_carry s (forward_carry s rt q tm) rt tm = Inr (Some q)"
proof -
  have "0 < forward_carry s rt q tm" using assms(1) by (rule forward_carry_pos)
  moreover have "forward_carry s rt q tm / s = exp ((rt - q) * tm)"
    using assms(1) by (simp add: forward_carry_def)
  ultimately show ?thesis
    using assms by (simp add: implied_net_carry_eq)
qed

theorem implied_net_carry_inverts_forward_carry_witness:
  "(0::real) < 100 \<and> (0::real) < 1 / 2
   \<and> implied_net_carry 100 (forward_carry 100 (3 / 100) (1 / 100) (1 / 2)) (3 / 100) (1 / 2)
     = Inr (Some (1 / 100))"
  using implied_net_carry_inverts_forward_carry [of 100 "1 / 2" "3 / 100" "1 / 100"] by simp

text \<open>
  Claim C3. On every valid input the hint list is non-empty exactly when the status is FAIL.
  On FAIL the hints are, in this order: timestamp alignment, conventions, the directional
  hint (lower for a negative spread, higher otherwise), then the carry-mismatch hint when
  the implied net carry is present and its gap reaches the gap tolerance, or the
  not-available hint when the implied net carry is absent, then settlement and bid/ask.
  The not-available hint occurs exactly when the implied carry is absent, the mismatch
  hint exactly when it is present with a gap at or above the tolerance.
\<close>

theorem hints_iff_fail_in_fixed_order:
  assumes "validate_inputs x = Inr ()"
  shows "\<exists>rep. run_ipv_check x ta tb tq rd = Inr rep
           \<and> (root_cause_hints rep \<noteq> [] \<longleftrightarrow> status rep = ''FAIL'')
           \<and> (status rep = ''FAIL'' \<longrightarrow>
                 (\<exists>C P q_impl. call x = Some C \<and> put x = Some P
                    \<and> implied_net_carry (spot x)
                        (forward_from_put_call_parity (strike x) C P (r x) (T x)) (r x) (T x)
                      = Inr q_impl
                    \<and> root_cause_hints rep =
                        [hint_timestamp, hint_conventions,
                         if forward_from_put_call_parity (strike x) C P (r x) (T x)
                              - forward_carry (spot x) (r x) (net_carry x) (T x) < 0
                         then hint_lower else hint_higher]
                        @ (case q_impl of
                             None \<Rightarrow> [hint_carry_unavailable]
                           | Some q \<Rightarrow>
                               if tq \<le> \<bar>(q - net_carry x) * 10000\<bar>
                               then [hint_carry_mismatch] else [])
                        @ [hint_settlement, hint_bid_ask]
                    \<and> (hint_carry_unavailable \<in> set (root_cause_hints rep) \<longleftrightarrow> q_impl = None)
                    \<and> (hint_carry_mismatch \<in> set (root_cause_hints rep) \<longleftrightarrow>
                         (\<exists>q. q_impl = Some q \<and> tq \<le> \<bar>(q - net_carry x) * 10000\<bar>))))"
proof (cases "call x")
  case None
  with assms show ?thesis by (simp add: run_no_options)
next
  case (Some C)
  with assms obtain P where P: "put x = Some P" by (auto simp: validate_inputs_ok_iff)
  from assms have pos: "0 < spot x" "0 < T x" by (simp_all add: validate_inputs_ok_iff)
  define fm where "fm = forward_from_put_call_parity (strike x) C P (r x) (T x)"
  define qi where "qi = (if fm \<le> 0 then None else Some (r x - ln (fm / spot x) / T x))"
  have inc: "implied_net_carry (spot x) fm (r x) (T x) = Inr qi"
    by (simp add: implied_net_carry_eq [OF pos] qi_def)
  show ?thesis
  proof (cases "fm \<le> 0")
    case True
    then show ?thesis
      using Some P inc
      by (simp add: run_with_options [OF assms Some P] Let_def fm_def [symmetric] qi_def
          hints_for_nonempty_iff hints_for_fail hint_defs)
  next
    case False
    then show ?thesis
      using Some P inc
      by (simp add: run_with_options [OF assms Some P] Let_def fm_def [symmetric] qi_def
          hints_for_nonempty_iff hints_for_fail hint_defs)
  qed
qed

theorem hints_iff_fail_in_fixed_order_witness:
  "validate_inputs \<lparr> spot = 100, r = 0, net_carry = 0, T = 1, strike = 1,
                      call = Some 0, put = Some 2 \<rparr> = Inr ()
   \<and> (\<exists>rep. run_ipv_check \<lparr> spot = 100, r = 0, net_carry = 0, T = 1, strike = 1,
                             call = Some 0, put = Some 2 \<rparr> (1 / 5) 5 50 6 = Inr rep
           \<and> status rep = ''FAIL''
           \<and> root_cause_hints rep =
               [hint_timestamp, hint_conventions, hint_lower, hint_carry_unavailable,
                hint_settlement, hint_bid_ask])"
proof -
  let ?x = "\<lparr> spot = 100, r = 0, net_carry = 0, T = 1, strike = 1,
              call = Some 0, put = Some 2 \<rparr> :: EquityForwardIPVInputs"
  have v: "validate_inputs ?x = Inr ()" by (simp add: validate_inputs_def)
  have st: "\<And>rep. run_ipv_check ?x (1 / 5) 5 50 6 = Inr rep \<Longrightarrow> status rep = ''FAIL''"
    using run_with_options [OF v, of 0 2 "1 / 5" 5 50 6]
    by (auto simp: Let_def forward_carry_def forward_from_put_call_parity_def)
  from hints_iff_fail_in_fixed_order [OF v, of "1 / 5" 5 50 6] v st show ?thesis
    by (auto simp: forward_carry_def forward_from_put_call_parity_def implied_net_carry_def)
qed

text \<open>
  Claim C5, as stated, fails: the reported forwards are rounded to \<open>rounding\<close> decimals. With
  strike 1, call 1/4, put 0, zero rates and \<open>rounding = 0\<close> the parity formula gives 5/4 and
  the report shows 1.
\<close>

theorem reported_forward_differs_from_parity_formula:
  "validate_inputs rounding_inputs = Inr ()
   \<and> call rounding_inputs = Some (1 / 4) \<and> put rounding_inputs = Some 0
   \<and> \<not> isl (run_ipv_check rounding_inputs (1 / 5) 5 50 0)
   \<and> market_implied_forward (projr (run_ipv_check rounding_inputs (1 / 5) 5 50 0)) = Some 1
   \<and> strike rounding_inputs + exp (r rounding_inputs * T rounding_inputs) * (1 / 4 - 0) = 5 / 4
   \<and> market_implied_forward (projr (run_ipv_check rounding_inputs (1 / 5) 5 50 0))
     \<noteq> Some (strike rounding_inputs + exp (r rounding_inputs * T rounding_inputs) * (1 / 4 - 0))"
proof -
  have c: "call rounding_inputs = Some (1 / 4)" and p: "put rounding_inputs = Some 0"
    by (simp_all add: rounding_inputs_def)
  have rnd: "py_round (5 / 4) 0 = 1"
    by (simp add: py_round_def round_half_even_def)
  have fm: "forward_from_put_call_parity (strike rounding_inputs) (1 / 4) 0
              (r rounding_inputs) (T rounding_inputs) = 5 / 4"
    by (simp add: forward_from_put_call_parity_def rounding_inputs_def)
  have run: "\<not> isl (run_ipv_check rounding_inputs (1 / 5) 5 50 0)
      \<and> market_implied_forward (projr (run_ipv_check rounding_inputs (1 / 5) 5 50 0)) = Some 1"
    by (simp add: run_with_options [OF rounding_inputs_valid c p] Let_def fm rnd)
  have "strike rounding_inputs + exp (r rounding_inputs * T rounding_inputs) * (1 / 4 - 0)
          = 5 / 4"
    by (simp add: rounding_inputs_def)
  with run rounding_inputs_valid c p show ?thesis by simp
qed

text \<open>
  Claim C5, amended. The functions \<open>forward_from_put_call_parity\<close> and \<open>forward_carry\<close> compute
  \<open>strike + exp (r * T) * (call - put)\<close> and \<open>spot * exp ((r - net_carry) * T)\<close>. On a valid
  input with both option prices, the reported market-implied forward, baseline forward and
  absolute spread are these two values and their difference, each rounded to \<open>rounding\<close>
  decimals, so each is within half a unit of the last kept decimal of the exact value.
\<close>

theorem reported_forwards_are_rounded_formulas:
  assumes "validate_inputs x = Inr ()" and "call x = Some C" and "put x = Some P"
  shows "\<exists>rep fm fb sp. run_ipv_check x ta tb tq rd = Inr rep
           \<and> forward_from_put_call_parity (strike x) C P (r x) (T x)
               = strike x + exp (r x * T x) * (C - P)
           \<and> forward_carry (spot x) (r x) (net_carry x) (T x)
               = spot x * exp ((r x - net_carry x) * T x)
           \<and> market_implied_forward rep = Some fm
           \<and> fm = py_round (strike x + exp (r x * T x) * (C - P)) rd
           \<and> \<bar>fm - (strike x + exp (r x * T x) * (C - P))\<bar> \<le> 10 powi (- rd) / 2
           \<and> baseline_forward rep = fb
           \<and> fb = py_round (spot x * exp ((r x - net_carry x) * T x)) rd
           \<and> \<bar>fb - spot x * exp ((r x - net_carry x) * T x)\<bar> \<le> 10 powi (- rd) / 2
           \<and> abs_spread rep = Some sp
           \<and> sp = py_round (strike x + exp (r x * T x) * (C - P)
                             - spot x * exp ((r x - net_carry x) * T x)) rd
           \<and> \<bar>sp - (strike x + exp (r x * T x) * (C - P)
                     - spot x * exp ((r x - net_carry x) * T x))\<bar> \<le> 10 powi (- rd) / 2"
proof -
  define fmx where "fmx = strike x + exp (r x * T x) * (C - P)"
  define fbx where "fbx = spot x * exp ((r x - net_carry x) * T x)"
  have run: "run_ipv_check x ta tb tq rd = Inr rep \<Longrightarrow>
      market_implied_forward rep = Some (py_round fmx rd)
      \<and> baseline_forward rep = py_round fbx rd
      \<and> abs_spread rep = Some (py_round (fmx - fbx) rd)" for rep
    using assms
    by (auto simp: run_with_options Let_def forward_from_put_call_parity_def forward_carry_def
        fmx_def fbx_def)
  obtain rep where rep: "run_ipv_check x ta tb tq rd = Inr rep"
    using assms by (auto simp: run_with_options Let_def)
  have "\<bar>py_round fmx rd - fmx\<bar> \<le> 10 powi (- rd) / 2"
    "\<bar>py_round fbx rd - fbx\<bar> \<le> 10 powi (- rd) / 2"
    "\<bar>py_round (fmx - fbx) rd - (fmx - fbx)\<bar> \<le> 10 powi (- rd) / 2"
    by (rule py_round_error)+
  with run [OF rep] rep show ?thesis
    unfolding fmx_def fbx_def forward_from_put_call_parity_def forward_carry_def
    by blast
qed

theorem reported_forwards_are_rounded_formulas_witness:
  "validate_inputs rounding_inputs = Inr ()
   \<and> call rounding_inputs = Some (1 / 4) \<and> put rounding_inputs = Some 0
   \<and> (\<exists>rep. run_ipv_check rounding_inputs (1 / 5) 5 50 2 = Inr rep
          \<and> market_implied_forward rep = Some (5 / 4)
          \<and> baseline_forward rep = 1
          \<and> abs_spread rep = Some (1 / 4))"
proof -
  have c: "call rounding_inputs = Some (1 / 4)" and p: "put rounding_inputs = Some 0"
    by (simp_all add: rounding_inputs_def)
  have e: "exp (r rounding_inputs * T rounding_inputs) = 1"
      "exp ((r rounding_inputs - net_carry rounding_inputs) * T rounding_inputs) = 1"
      "strike rounding_inputs = 1" "spot rounding_inputs = 1"
    by (simp_all add: rounding_inputs_def)
  have r1: "py_round (5 / 4) 2 = 5 / 4" "py_round 1 2 = 1" "py_round (1 / 4) 2 = 1 / 4"
    by (simp_all add: py_round_def round_half_even_def)
  from reported_forwards_are_rounded_formulas
    [OF rounding_inputs_valid c p, of "1 / 5" 5 50 2]
  show ?thesis
    using rounding_inputs_valid c p by (auto simp: e r1)
qed

text \<open>
  Claim C2, as stated, fails in one figure: on the example input the effective tolerance is
  the absolute tolerance 0.20, since 5 basis points of the baseline forward are about
  0.0505, not 0.505.
\<close>

theorem example_tol_eff_is_not_0505:
  "validate_inputs example_inputs = Inr ()
   \<and> \<not> isl (run_ipv_check example_inputs (20 / 100) 5 50 6)
   \<and> tol_eff (tolerances (projr (run_ipv_check example_inputs (20 / 100) 5 50 6)))
       = Some (20 / 100)
   \<and> \<not> approx3 (20 / 100) (505 / 1000)"
proof -
  have c: "call example_inputs = Some (520 / 100)" and p: "put example_inputs = Some (480 / 100)"
    by (simp_all add: example_inputs_def)
  have "\<not> isl (run_ipv_check example_inputs (20 / 100) 5 50 6)
   \<and> tol_eff (tolerances (projr (run_ipv_check example_inputs (20 / 100) 5 50 6)))
       = Some (max (20 / 100) (\<bar>5\<bar> * (100 * exp (1 / 100)) / 10000))"
    by (simp add: run_with_options [OF example_inputs_valid c p] Let_def example_forwards)
  then show ?thesis
    using example_inputs_valid by (simp only: example_tol_eff) (simp add: approx3_def)
qed

text \<open>
  Claim C2, amended. For spot 100, r 0.03, net carry 0.01, T 0.5, strike 100, call 5.20,
  put 4.80, with tolerances 0.20 and 5 bps, the report has the baseline forward about
  101.005, the market-implied forward about 100.406 and the spread about -0.599 (each to
  three decimals); 5 bps of the baseline forward are about 0.0505, the effective
  tolerance is 0.20, and the status is FAIL.
\<close>

theorem example_run_fails_with_absolute_tolerance:
  "\<exists>rep fm sp. run_ipv_check example_inputs (20 / 100) 5 50 6 = Inr rep
      \<and> approx3 (baseline_forward rep) (101005 / 1000)
      \<and> market_implied_forward rep = Some fm \<and> approx3 fm (100406 / 1000)
      \<and> abs_spread rep = Some sp \<and> approx3 sp (- 599 / 1000)
      \<and> approx3 (5 * forward_carry 100 (3 / 100) (1 / 100) (1 / 2) / 10000) (505 / 10000)
      \<and> tol_eff (tolerances rep) = Some (20 / 100)
      \<and> pass_eff rep = Some False
      \<and> status rep = ''FAIL''"
proof -
  have c: "call example_inputs = Some (520 / 100)" and p: "put example_inputs = Some (480 / 100)"
    by (simp_all add: example_inputs_def)
  define fb :: real where "fb = 100 * exp (1 / 100)"
  define fm :: real where "fm = 100 + exp (3 / 200) * (4 / 10)"
  have fb: "101005 / 1000 \<le> fb" "fb \<le> 10100505 / 100000"
    using exp_hundredth by (simp_all add: fb_def)
  have fm: "100406045 / 1000000 \<le> fm" "fm \<le> 100406046 / 1000000"
    using exp_three_two_hundredths by (simp_all add: fm_def)
  have te: "max (20 / 100) (\<bar>5\<bar> * fb / 10000) = 20 / 100"
    using example_tol_eff by (simp add: fb_def)
  have rb: "\<bar>py_round fb 6 - fb\<bar> \<le> 1 / 2000000"
    by (rule py_round_error_6)
  have rm: "\<bar>py_round fm 6 - fm\<bar> \<le> 1 / 2000000"
    by (rule py_round_error_6)
  have rs: "\<bar>py_round (fm - fb) 6 - (fm - fb)\<bar> \<le> 1 / 2000000"
    by (rule py_round_error_6)
  have a1: "approx3 (py_round fb 6) (101005 / 1000)"
    using fb rb unfolding approx3_def by linarith
  have a2: "approx3 (py_round fm 6) (100406 / 1000)"
    using fm rm unfolding approx3_def by linarith
  have a3: "approx3 (py_round (fm - fb) 6) (- 599 / 1000)"
    using fm fb rs unfolding approx3_def by linarith
  have a4: "approx3 (5 * forward_carry 100 (3 / 100) (1 / 100) (1 / 2) / 10000) (505 / 10000)"
  proof -
    have "forward_carry 100 (3 / 100) (1 / 100) (1 / 2) = fb"
      by (simp add: forward_carry_def fb_def)
    with fb show ?thesis unfolding approx3_def by linarith
  qed
  have fl: "\<not> \<bar>fm - fb\<bar> \<le> 20 / 100"
    using fm fb by linarith
  note run = run_with_options [OF example_inputs_valid c p, of "20 / 100" 5 50 6]
  note run' = run [unfolded Let_def example_forwards fb_def [symmetric] fm_def [symmetric] te]
  from run' fl obtain rep where rep: "run_ipv_check example_inputs (20 / 100) 5 50 6 = Inr rep"
      and flds: "baseline_forward rep = py_round fb 6"
        "market_implied_forward rep = Some (py_round fm 6)"
        "abs_spread rep = Some (py_round (fm - fb) 6)"
        "tol_eff (tolerances rep) = Some (20 / 100)"
        "pass_eff rep = Some False"
        "status rep = ''FAIL''"
    by simp
  show ?thesis
    apply (rule exI [of _ rep])
    apply (rule exI [of _ "py_round fm 6"])
    apply (rule exI [of _ "py_round (fm - fb) 6"])
    apply (simp only: rep flds a1 a2 a3 a4)
    done
qed

text \<open>
  Claim C8. For a report with six hints, the formatter called with \<open>top_hints = 2\<close> appends,
  after the body, a blank line, the Next checks heading, and the first and the second hint
  in that order, then the closing separator. With an empty hint list the closing separator
  follows the body directly: no heading occurs anywhere and the line before the separator
  is not blank. The text returned is these lines joined by newlines.
\<close>

theorem report_shows_first_two_hints:
  "(length (root_cause_hints rep) = 6 \<longrightarrow>
      format_ipv_report_lines fs rep 2 =
        report_body fs rep
        @ [[], ''Next checks        :'',
           ''- '' @ root_cause_hints rep ! 0, ''- '' @ root_cause_hints rep ! 1, sep_line])
   \<and> (root_cause_hints rep = [] \<longrightarrow>
        format_ipv_report_lines fs rep k = report_body fs rep @ [sep_line]
        \<and> last (report_body fs rep) \<noteq> []
        \<and> ''Next checks        :'' \<notin> set (format_ipv_report_lines fs rep k))
   \<and> format_ipv_report fs rep k = join_lines (format_ipv_report_lines fs rep k)"
proof (intro conjI impI)
  assume len: "length (root_cause_hints rep) = 6"
  then obtain a b rest where h: "root_cause_hints rep = a # b # rest"
    by (cases "root_cause_hints rep"; cases "tl (root_cause_hints rep)") auto
  have "nat (max 0 (2::int)) = Suc (Suc 0)" by simp
  with h show "format_ipv_report_lines fs rep 2 =
        report_body fs rep
        @ [[], ''Next checks        :'',
           ''- '' @ root_cause_hints rep ! 0, ''- '' @ root_cause_hints rep ! 1, sep_line]"
    by (simp add: format_ipv_report_lines_def Let_def)
next
  assume e: "root_cause_hints rep = []"
  then show "format_ipv_report_lines fs rep k = report_body fs rep @ [sep_line]"
    by (simp add: format_ipv_report_lines_def)
  show "last (report_body fs rep) \<noteq> []" by (rule report_body_last_nonblank)
  from e show "''Next checks        :'' \<notin> set (format_ipv_report_lines fs rep k)"
    using next_checks_not_in_body [of fs rep] sep_line_neq_next
    by (auto simp: format_ipv_report_lines_def)
next
  show "format_ipv_report fs rep k = join_lines (format_ipv_report_lines fs rep k)"
    by (simp add: format_ipv_report_def)
qed

theorem report_shows_first_two_hints_witness:
  "length (root_cause_hints example_fail_report) = 6
   \<and> format_ipv_report_lines (\<lambda>v. format_fixed v 3) example_fail_report 2 =
       report_body (\<lambda>v. format_fixed v 3) example_fail_report
       @ [[], ''Next checks        :'', ''- '' @ hint_timestamp, ''- '' @ hint_conventions,
          sep_line]"
proof -
  have len: "length (root_cause_hints example_fail_report) = 6"
    by (simp add: example_fail_report_def six_hints_def)
  have "root_cause_hints example_fail_report ! 0 = hint_timestamp"
    "root_cause_hints example_fail_report ! 1 = hint_conventions"
    by (simp_all add: example_fail_report_def six_hints_def)
  with report_shows_first_two_hints [of example_fail_report "\<lambda>v. format_fixed v 3" 2] len
  show ?thesis by simp
qed

end
